theory Spec2Isabelle
  imports Complex_Main
begin

section \<open>Python built-ins used by the client\<close>

text \<open>
  Response texts are Python \<open>str\<close> values. They are modelled as \<open>string\<close>, one
  \<open>char\<close> per code point, so the model covers the code points below 256; every
  literal the client compares against is ASCII.
\<close>

text \<open>\<open>str.isspace\<close> on one code point below 256.\<close>

definition py_isspace :: "char \<Rightarrow> bool" where
  "py_isspace c = ((of_char c :: nat) \<in> {9, 10, 11, 12, 13, 28, 29, 30, 31, 32, 133, 160})"

text \<open>\<open>s.strip()\<close>: leading and trailing whitespace removed.\<close>

definition py_strip :: "string \<Rightarrow> string" where
  "py_strip s = rev (dropWhile py_isspace (rev (dropWhile py_isspace s)))"

text \<open>\<open>str(b).lower()\<close> for a bool \<open>b\<close>.\<close>

definition py_bool_lower :: "bool \<Rightarrow> string" where
  "py_bool_lower b = (if b then ''true'' else ''false'')"

text \<open>\<open>str(n)\<close> for an int: decimal digits, a minus sign when negative.\<close>

definition digit_char :: "nat \<Rightarrow> char" where
  "digit_char d = ''0123456789'' ! d"

fun str_nat :: "nat \<Rightarrow> string" where
  "str_nat n = (if n < 10 then [digit_char n] else str_nat (n div 10) @ [digit_char (n mod 10)])"

declare str_nat.simps [simp del]

definition py_str_int :: "int \<Rightarrow> string" where
  "py_str_int i = (if i < 0 then CHR ''-'' # str_nat (nat (- i)) else str_nat (nat i))"

text \<open>
  \<open>int(s)\<close> for a str, base 10: surrounding whitespace is dropped, then an optional sign,
  then decimal digits in which single underscores may stand between two digits. Anything
  else raises \<open>ValueError\<close> (here \<open>None\<close>). CPython (3.11 and later) also refuses, with
  \<open>ValueError\<close>, a literal of more than 4300 digits.
\<close>

definition is_digit :: "char \<Rightarrow> bool" where
  "is_digit c = (48 \<le> (of_char c :: nat) \<and> (of_char c :: nat) \<le> 57)"

definition digit_val :: "char \<Rightarrow> int" where
  "digit_val c = int (of_char c) - 48"

definition int_max_str_digits :: nat where
  "int_max_str_digits = 4300"

fun parse_digits :: "int \<Rightarrow> string \<Rightarrow> int option" where
  "parse_digits acc [] = Some acc"
| "parse_digits acc [c] = (if is_digit c then Some (10 * acc + digit_val c) else None)"
| "parse_digits acc (c # d # ds) =
     (if is_digit c then parse_digits (10 * acc + digit_val c) (d # ds)
      else if c = CHR ''_'' \<and> is_digit d then parse_digits (10 * acc + digit_val d) ds
      else None)"

definition parse_unsigned :: "string \<Rightarrow> int option" where
  "parse_unsigned body =
     (case body of
        [] \<Rightarrow> None
      | d # ds \<Rightarrow>
          if is_digit d \<and> length (filter is_digit body) \<le> int_max_str_digits
          then parse_digits (digit_val d) ds
          else None)"

definition py_int :: "string \<Rightarrow> int option" where
  "py_int s =
     (case py_strip s of
        [] \<Rightarrow> None
      | c # cs \<Rightarrow>
          if c = CHR ''-'' then map_option uminus (parse_unsigned cs)
          else if c = CHR ''+'' then parse_unsigned cs
          else parse_unsigned (c # cs))"

text \<open>
  \<open>repr(s)\<close> for a str: single quotes, unless the text has a single quote and no double
  quote; the quote and the backslash are escaped, tab, newline and carriage return are
  written \<open>\t\<close>, \<open>\n\<close>, \<open>\r\<close>, and every other non-printable code point as \<open>\xNN\<close>.
\<close>

definition hex_char :: "nat \<Rightarrow> char" where
  "hex_char d = ''0123456789abcdef'' ! d"

definition py_isprintable :: "char \<Rightarrow> bool" where
  "py_isprintable c =
     (let n = (of_char c :: nat)
      in (32 \<le> n \<and> n < 127) \<or> (161 \<le> n \<and> n \<noteq> 173))"

definition repr_char :: "char \<Rightarrow> char \<Rightarrow> string" where
  "repr_char q c =
     (let n = (of_char c :: nat)
      in if c = q \<or> n = 92 then [CHR 0x5C, c]
         else if n = 9 then [CHR 0x5C, CHR ''t'']
         else if n = 10 then [CHR 0x5C, CHR ''n'']
         else if n = 13 then [CHR 0x5C, CHR ''r'']
         else if py_isprintable c then [c]
         else [CHR 0x5C, CHR ''x'', hex_char (n div 16), hex_char (n mod 16)])"

definition py_repr :: "string \<Rightarrow> string" where
  "py_repr s =
     (let q = (if CHR 0x27 \<in> set s \<and> CHR 0x22 \<notin> set s
               then CHR 0x22 else CHR 0x27)
      in q # concat (map (repr_char q) s) @ [q])"

text \<open>\<open>sep.join(xs)\<close>.\<close>

fun join :: "string \<Rightarrow> string list \<Rightarrow> string" where
  "join sep [] = []"
| "join sep [x] = x"
| "join sep (x # y # ys) = x @ sep @ join sep (y # ys)"

text \<open>
  The values \<open>r.json()\<close> can return. A Python float is stood for by its \<open>repr\<close>, which
  identifies it; a dict by its items in insertion order.
\<close>

datatype json =
    JNull
  | JBool bool
  | JInt int
  | JFloat string
  | JString string
  | JArray "json list"
  | JObject "(string \<times> json) list"

fun py_repr_json :: "json \<Rightarrow> string" where
  "py_repr_json JNull = ''None''"
| "py_repr_json (JBool b) = (if b then ''True'' else ''False'')"
| "py_repr_json (JInt i) = py_str_int i"
| "py_repr_json (JFloat f) = f"
| "py_repr_json (JString s) = py_repr s"
| "py_repr_json (JArray xs) = ''['' @ join '', '' (map py_repr_json xs) @ '']''"
| "py_repr_json (JObject kvs) =
     ''{'' @ join '', '' (map (\<lambda>kv. py_repr (fst kv) @ '': '' @ py_repr_json (snd kv)) kvs) @ ''}''"

text \<open>\<open>str(x)\<close>: a str is itself, every other value is its \<open>repr\<close>.\<close>

definition py_str :: "json \<Rightarrow> string" where
  "py_str v = (case v of JString s \<Rightarrow> s | _ \<Rightarrow> py_repr_json v)"

text \<open>\<open>str(type(x))\<close>.\<close>

definition py_type :: "json \<Rightarrow> string" where
  "py_type v =
     ''<class '' @ [CHR 0x27] @
     (case v of
        JNull \<Rightarrow> ''NoneType''
      | JBool _ \<Rightarrow> ''bool''
      | JInt _ \<Rightarrow> ''int''
      | JFloat _ \<Rightarrow> ''float''
      | JString _ \<Rightarrow> ''str''
      | JArray _ \<Rightarrow> ''list''
      | JObject _ \<Rightarrow> ''dict'') @ [CHR 0x27] @ ''>''"

section \<open>Requests, responses and the world the client runs in\<close>

datatype http_method = GET | POST

record payload =
  pageIds :: "string list"
  processesToExecute :: "string list"
  processSettings :: "(string \<times> json) list"

datatype body = NoBody | FormBody "(string \<times> string) list" | JsonBody payload

record request =
  meth :: http_method
  url :: string
  params :: "(string \<times> string) list"
  headers :: "(string \<times> string) list"
  payload_of :: body
  timeout :: real

text \<open>
  A response as the \<open>requests\<close> library hands it over: the status code, \<open>r.text\<close>, and
  what \<open>r.json()\<close> gives (\<open>None\<close> when it raises).
\<close>

record response =
  status_code :: nat
  r_text :: string
  r_json :: "json option"

text \<open>The exceptions \<open>session.get\<close> and \<open>session.post\<close> raise when no response arrives.\<close>

datatype transport_error =
  ConnectionError | ConnectTimeout | ReadTimeout | TooManyRedirects | OtherRequestException

datatype outcome = Fails transport_error | Responds response

datatype error =
    RequestError transport_error
  | HTTPError response
  | RuntimeError string
  | TimeoutError string
  | ValueError string

datatype level = INFO | WARNING | ERROR

datatype event = Http request outcome | Sleep real | Log level string

text \<open>
  The environment of one run: the outcome of the k-th HTTP request the client issues, and
  the value of the k-th reading of \<open>time.time()\<close>, taken as a real number (the rounding
  of a floating-point difference is left out). The session's cookies live in the server's
  answers.
\<close>

record env =
  server :: "nat \<Rightarrow> outcome"
  clock :: "nat \<Rightarrow> real"

text \<open>The module constants read from the process environment at import.\<close>

record config =
  OCR4ALL_EXEC_TIMEOUT_S :: int
  OCR4ALL_WAIT_TIMEOUT_S :: int
  OCR4ALL_HTTP_TIMEOUT_S :: int
  OCR4ALL_ORIGIN :: "string option"
  OCR4ALL_REFERER :: "string option"

text \<open>What a run has done so far, and how many answers and clock readings it has used.\<close>

record state =
  trace :: "event list"
  http_k :: nat
  clock_k :: nat

definition init :: state where
  "init = \<lparr>trace = [], http_k = 0, clock_k = 0\<rparr>"

type_synonym 'a io = "state \<Rightarrow> (error + 'a) \<times> state"

definition ret :: "'a \<Rightarrow> 'a io" where
  "ret x st = (Inr x, st)"

definition raise :: "error \<Rightarrow> 'a io" where
  "raise e st = (Inl e, st)"

text \<open>Sequencing: an exception of the first part skips the second.\<close>

definition then_do :: "'a io \<Rightarrow> ('a \<Rightarrow> 'b io) \<Rightarrow> 'b io" where
  "then_do m f st = (case m st of (Inl e, st') \<Rightarrow> (Inl e, st') | (Inr x, st') \<Rightarrow> f x st')"

definition session_request :: "env \<Rightarrow> request \<Rightarrow> response io" where
  "session_request e rq st =
     (let oc = server e (http_k st);
          st' = st\<lparr>trace := trace st @ [Http rq oc], http_k := Suc (http_k st)\<rparr>
      in case oc of Fails x \<Rightarrow> (Inl (RequestError x), st') | Responds r \<Rightarrow> (Inr r, st'))"

text \<open>\<open>Response.raise_for_status\<close> of \<open>requests\<close>: \<open>HTTPError\<close> for a 4xx or 5xx status.\<close>

definition http_error_status :: "nat \<Rightarrow> bool" where
  "http_error_status c = (400 \<le> c \<and> c < 600)"

definition raise_for_status :: "response \<Rightarrow> unit io" where
  "raise_for_status r =
     (if http_error_status (status_code r) then raise (HTTPError r) else ret ())"

text \<open>
  \<open>time.sleep(d)\<close>: \<open>ValueError\<close> for a negative \<open>d\<close>, and no sleep then.
\<close>

definition time_sleep :: "real \<Rightarrow> unit io" where
  "time_sleep d st =
     (if d < 0 then (Inl (ValueError ''sleep length must be non-negative''), st)
      else (Inr (), st\<lparr>trace := trace st @ [Sleep d]\<rparr>))"

definition logger :: "level \<Rightarrow> string \<Rightarrow> unit io" where
  "logger lv msg st = (Inr (), st\<lparr>trace := trace st @ [Log lv msg]\<rparr>)"

definition time_time :: "env \<Rightarrow> real io" where
  "time_time e st = (Inr (clock e (clock_k st)), st\<lparr>clock_k := Suc (clock_k st)\<rparr>)"

definition get_request :: "string \<Rightarrow> (string \<times> string) list \<Rightarrow> int \<Rightarrow> request" where
  "get_request u ps t =
     \<lparr>meth = GET, url = u, params = ps, headers = [], payload_of = NoBody, timeout = real_of_int t\<rparr>"

section \<open>The client's operations\<close>

definition ocr4all_open_project ::
  "config \<Rightarrow> env \<Rightarrow> string \<Rightarrow> string \<Rightarrow> string \<Rightarrow> bool \<Rightarrow> unit io" where
  "ocr4all_open_project cfg e base_url project_dir image_type reset_session =
     then_do (session_request e (get_request (base_url @ ''/'') [] (OCR4ALL_HTTP_TIMEOUT_S cfg))) (\<lambda>r0.
     then_do (raise_for_status r0) (\<lambda>_.
     then_do (session_request e
        (get_request (base_url @ ''/ajax/overview/checkDir'')
           [(''projectDir'', project_dir), (''imageType'', image_type),
            (''resetSession'', py_bool_lower reset_session)]
           (OCR4ALL_HTTP_TIMEOUT_S cfg))) (\<lambda>r1.
     then_do (raise_for_status r1) (\<lambda>_.
     if py_strip (r_text r1) \<noteq> ''true''
     then raise (RuntimeError (''ocr4all checkDir returned '' @ py_repr (r_text r1)
                   @ '' for projectDir='' @ project_dir))
     else
     then_do (session_request e
        (get_request (base_url @ ''/ajax/overview/validate'') [] (OCR4ALL_HTTP_TIMEOUT_S cfg))) (\<lambda>r2.
     then_do (raise_for_status r2) (\<lambda>_.
     if py_strip (r_text r2) \<noteq> ''true''
     then
       then_do (session_request e
          (get_request (base_url @ ''/ajax/overview/invalidateSession'') []
             (OCR4ALL_HTTP_TIMEOUT_S cfg))) (\<lambda>_.
       raise (RuntimeError (''ocr4all validate returned '' @ py_repr (r_text r2))))
     else
     then_do (session_request e
        (get_request (base_url @ ''/ajax/overview/validateProject'')
           [(''projectDir'', project_dir), (''imageType'', image_type)]
           (OCR4ALL_HTTP_TIMEOUT_S cfg))) (\<lambda>r3.
     then_do (raise_for_status r3) (\<lambda>_.
     if py_strip (r_text r3) \<noteq> ''true''
     then raise (RuntimeError (''ocr4all validateProject returned:'' @ [CHR 0x0A] @ '' ''
                   @ py_repr (r_text r3)))
     else ret ()))))))))"

definition ocr4all_get_page_ids :: "config \<Rightarrow> env \<Rightarrow> string \<Rightarrow> string \<Rightarrow> string list io" where
  "ocr4all_get_page_ids cfg e base_url image_type =
     then_do (session_request e
        (get_request (base_url @ ''/ajax/generic/pagelist'') [(''imageType'', image_type)]
           (OCR4ALL_HTTP_TIMEOUT_S cfg))) (\<lambda>r.
     then_do (raise_for_status r) (\<lambda>_.
     case r_json r of
       None \<Rightarrow>
         raise (RuntimeError (''pagelist did not return JSON. head='' @ py_repr (take 200 (r_text r))))
     | Some data \<Rightarrow>
         (case data of
            JArray xs \<Rightarrow> ret (map py_str xs)
          | _ \<Rightarrow>
              raise (RuntimeError (''Unexpected pagelist payload: '' @ py_type data @ '' ''
                       @ take 200 (py_str data))))))"

definition ocr4all_threads :: "config \<Rightarrow> env \<Rightarrow> string \<Rightarrow> int io" where
  "ocr4all_threads cfg e base_url =
     then_do (session_request e
        (get_request (base_url @ ''/ajax/generic/threads'') [] (OCR4ALL_HTTP_TIMEOUT_S cfg))) (\<lambda>r.
     then_do (raise_for_status r) (\<lambda>_.
     case py_int (py_strip (r_text r)) of
       Some n \<Rightarrow> ret (max 1 n)
     | None \<Rightarrow> ret 1))"

definition ocr4all_processflow_execute ::
  "config \<Rightarrow> env \<Rightarrow> string \<Rightarrow> string list \<Rightarrow> string list \<Rightarrow> (string \<times> json) list \<Rightarrow> unit io" where
  "ocr4all_processflow_execute cfg e base_url page_ids processes process_settings =
     then_do (session_request e
        \<lparr>meth = POST, url = base_url @ ''/ajax/processFlow/execute'', params = [],
         headers = [(''Accept'', ''application/json''), (''Content-Type'', ''application/json'')],
         payload_of = JsonBody \<lparr>pageIds = page_ids, processesToExecute = processes,
                                processSettings = process_settings\<rparr>,
         timeout = real_of_int (OCR4ALL_EXEC_TIMEOUT_S cfg)\<rparr>) (\<lambda>r.
     if status_code r \<noteq> 200
     then raise (RuntimeError (''processFlow/execute failed: HTTP '' @ py_str_int (int (status_code r))
                   @ '': '' @ take 500 (r_text r)))
     else ret ())"

definition ocr4all_processflow_current :: "config \<Rightarrow> env \<Rightarrow> string \<Rightarrow> string io" where
  "ocr4all_processflow_current cfg e base_url =
     then_do (session_request e
        (get_request (base_url @ ''/ajax/processFlow/current'') [] (OCR4ALL_HTTP_TIMEOUT_S cfg))) (\<lambda>r.
     then_do (raise_for_status r) (\<lambda>_.
     ret (py_strip (r_text r))))"

text \<open>
  The \<open>while True\<close> loop of \<open>ocr4all_processflow_wait\<close>. It may run forever; a run that
  does has the value \<open>None\<close>. \<open>time.sleep(1)\<close> does not raise. \<open>last\<close> (here \<open>last_cur\<close>) starts as Python's \<open>None\<close>, which no polled status
  equals.
\<close>

partial_function (option) wait_loop ::
  "config \<Rightarrow> env \<Rightarrow> string \<Rightarrow> int \<Rightarrow> real \<Rightarrow> string option \<Rightarrow> state \<Rightarrow> ((error + unit) \<times> state) option"
  where
  "wait_loop cfg e base_url timeout_s t0 last_cur st =
     (case ocr4all_processflow_current cfg e base_url st of
        (Inl x, st1) \<Rightarrow> Some (Inl x, st1)
      | (Inr cur, st1) \<Rightarrow>
          (let st2 = (if Some cur \<noteq> last_cur
                      then snd (logger INFO (''OCR4all current: '' @ py_repr cur) st1) else st1);
               last' = (if Some cur \<noteq> last_cur then Some cur else last_cur)
           in if cur = ''''
              then Some (Inr (), st2)
              else
                (case time_time e st2 of
                   (Inl x, st3) \<Rightarrow> Some (Inl x, st3)
                 | (Inr now, st3) \<Rightarrow>
                     if now - t0 > real_of_int timeout_s
                     then Some (Inl (TimeoutError ''Timed out waiting for OCR4all process flow to finish''), st3)
                     else wait_loop cfg e base_url timeout_s t0 last' (snd (time_sleep 1 st3)))))"

definition ocr4all_processflow_wait ::
  "config \<Rightarrow> env \<Rightarrow> string \<Rightarrow> int \<Rightarrow> state \<Rightarrow> ((error + unit) \<times> state) option" where
  "ocr4all_processflow_wait cfg e base_url timeout_s st =
     (case time_time e st of
        (Inl x, st1) \<Rightarrow> Some (Inl x, st1)
      | (Inr t0, st1) \<Rightarrow> wait_loop cfg e base_url timeout_s t0 None st1)"

text \<open>
  \<open>except requests.exceptions.ReadTimeout\<close> around the POST and its
  \<open>raise_for_status\<close>: that one exception is turned into a warning and the empty string.
\<close>

definition ocr4all_convert_project_files ::
  "config \<Rightarrow> env \<Rightarrow> string \<Rightarrow> bool \<Rightarrow> int \<Rightarrow> int \<Rightarrow> string io" where
  "ocr4all_convert_project_files cfg e base_url delete_blank dpi timeout_s st =
     (case then_do (session_request e
              \<lparr>meth = POST, url = base_url @ ''/ajax/overview/convertProjectFiles'', params = [],
               headers = [],
               payload_of = FormBody [(''deleteBlank'', py_bool_lower delete_blank),
                                      (''dpi'', py_str_int dpi)],
               timeout = real_of_int timeout_s\<rparr>) (\<lambda>r.
           then_do (raise_for_status r) (\<lambda>_.
           ret (r_text r))) st of
        (Inl (RequestError ReadTimeout), st') \<Rightarrow>
          then_do (logger WARNING (''convertProjectFiles timed out after '' @ py_str_int timeout_s
                     @ ''s; assuming conversion continues in background.'')) (\<lambda>_.
          ret '''') st'
      | res \<Rightarrow> res)"



section \<open>Observations on a run\<close>

text \<open>
  What a GET hands to the caller once \<open>raise_for_status\<close> has passed and the text is
  stripped; \<open>None\<close> when the call raises instead.
\<close>

definition answer :: "outcome \<Rightarrow> string option" where
  "answer oc =
     (case oc of
        Fails _ \<Rightarrow> None
      | Responds r \<Rightarrow> if http_error_status (status_code r) then None else Some (py_strip (r_text r)))"

definition busy :: "outcome \<Rightarrow> bool" where
  "busy oc = (case answer oc of Some s \<Rightarrow> s \<noteq> '''' | None \<Rightarrow> False)"

definition idle :: "outcome \<Rightarrow> bool" where
  "idle oc = (answer oc = Some '''')"

text \<open>The requests of a trace, in order: method and URL, and these with the answer.\<close>

fun calls :: "event list \<Rightarrow> (http_method \<times> string) list" where
  "calls [] = []"
| "calls (Http rq oc # evs) = (meth rq, url rq) # calls evs"
| "calls (Sleep d # evs) = calls evs"
| "calls (Log lv m # evs) = calls evs"

fun answers :: "event list \<Rightarrow> (http_method \<times> string \<times> string option) list" where
  "answers [] = []"
| "answers (Http rq oc # evs) = (meth rq, url rq, answer oc) # answers evs"
| "answers (Sleep d # evs) = answers evs"
| "answers (Log lv m # evs) = answers evs"

fun logs_of :: "event list \<Rightarrow> (level \<times> string) list" where
  "logs_of [] = []"
| "logs_of (Http rq oc # evs) = logs_of evs"
| "logs_of (Sleep d # evs) = logs_of evs"
| "logs_of (Log lv m # evs) = (lv, m) # logs_of evs"

text \<open>Requests and sleeps in order: the URL of each request, the length of each sleep.\<close>

fun schedule :: "event list \<Rightarrow> (string + real) list" where
  "schedule [] = []"
| "schedule (Http rq oc # evs) = Inl (url rq) # schedule evs"
| "schedule (Sleep d # evs) = Inr d # schedule evs"
| "schedule (Log lv m # evs) = schedule evs"








definition cfg0 :: config where
  "cfg0 = \<lparr>OCR4ALL_EXEC_TIMEOUT_S = 60, OCR4ALL_WAIT_TIMEOUT_S = 3600,
           OCR4ALL_HTTP_TIMEOUT_S = 30, OCR4ALL_ORIGIN = None, OCR4ALL_REFERER = None\<rparr>"

definition resp :: "nat \<Rightarrow> string \<Rightarrow> outcome" where
  "resp c t = Responds \<lparr>status_code = c, r_text = t, r_json = None\<rparr>"

text \<open>A concrete environment: the outcomes of the requests in order, then no connection.\<close>

definition scripted :: "outcome list \<Rightarrow> (nat \<Rightarrow> real) \<Rightarrow> env" where
  "scripted ocs ts =
     \<lparr>server = (\<lambda>k. if k < length ocs then ocs ! k else Fails ConnectionError), clock = ts\<rparr>"

text \<open>A state moved on by some events, \<open>h\<close> answers and \<open>c\<close> clock readings.\<close>

definition advance :: "event list \<Rightarrow> nat \<Rightarrow> nat \<Rightarrow> state \<Rightarrow> state" where
  "advance evs h c st =
     st\<lparr>trace := trace st @ evs, http_k := http_k st + h, clock_k := clock_k st + c\<rparr>"


section \<open>Basic facts\<close>

lemma logs_of_append: "logs_of (xs @ ys) = logs_of xs @ logs_of ys"
  by (induction xs rule: logs_of.induct) simp_all

lemma calls_append: "calls (xs @ ys) = calls xs @ calls ys"
  by (induction xs rule: calls.induct) simp_all

lemma answers_append: "answers (xs @ ys) = answers xs @ answers ys"
  by (induction xs rule: answers.induct) simp_all

lemma schedule_append: "schedule (xs @ ys) = schedule xs @ schedule ys"
  by (induction xs rule: schedule.induct) simp_all

section \<open>Thread count\<close>

lemma threads_run:
  assumes "server e (http_k st) = Responds r" and "\<not> http_error_status (status_code r)"
  shows "ocr4all_threads cfg e base_url st =
     (Inr (case py_int (py_strip (r_text r)) of Some n \<Rightarrow> max 1 n | None \<Rightarrow> 1),
      st\<lparr>trace := trace st @ [Http (get_request (base_url @ ''/ajax/generic/threads'') []
                                      (OCR4ALL_HTTP_TIMEOUT_S cfg)) (Responds r)],
         http_k := Suc (http_k st)\<rparr>)"
  using assms
  by (simp add: ocr4all_threads_def then_do_def session_request_def raise_for_status_def
      ret_def split: option.splits)

lemma threads_at_least_one: "fst (ocr4all_threads cfg e base_url st) = Inr n \<Longrightarrow> 1 \<le> n"
  by (auto simp: ocr4all_threads_def then_do_def session_request_def raise_for_status_def
      ret_def raise_def Let_def split: option.splits outcome.splits if_splits)

text \<open>
  C7. When the threads request is answered without an HTTP error status: a text that,
  stripped, parses as a positive integer gives that integer; a text that does not parse
  gives 1, as a normal return value, and nothing is logged.
\<close>

theorem ocr4all_threads_parse:
  assumes "server e (http_k st) = Responds r" and "\<not> http_error_status (status_code r)"
  shows "(\<forall>n. py_int (py_strip (r_text r)) = Some n \<and> 0 < n \<longrightarrow>
            fst (ocr4all_threads cfg e base_url st) = Inr n)
       \<and> (py_int (py_strip (r_text r)) = None \<longrightarrow>
            fst (ocr4all_threads cfg e base_url st) = Inr 1)
       \<and> logs_of (trace (snd (ocr4all_threads cfg e base_url st))) = logs_of (trace st)"
  by (simp add: threads_run [OF assms] logs_of_append)

theorem ocr4all_threads_parse_witness:
  "fst (ocr4all_threads cfg0 (scripted [resp 200 '' 8 ''] (\<lambda>k. 0)) ''http://ocr4all:8080'' init) = Inr 8
   \<and> fst (ocr4all_threads cfg0 (scripted [resp 200 ''n/a''] (\<lambda>k. 0)) ''http://ocr4all:8080'' init) = Inr 1
   \<and> fst (ocr4all_threads cfg0 (scripted [resp 200 ''''] (\<lambda>k. 0)) ''http://ocr4all:8080'' init) = Inr 1"
proof -
  have s: "\<And>t. server (scripted [resp 200 t] (\<lambda>k. 0)) (http_k init)
              = Responds \<lparr>status_code = 200, r_text = t, r_json = None\<rparr>"
    by (simp add: scripted_def resp_def init_def)
  have ok: "\<And>t. \<not> http_error_status (status_code \<lparr>status_code = 200, r_text = t, r_json = None\<rparr>)"
    by (simp add: http_error_status_def)
  have p1: "py_int (py_strip '' 8 '') = Some 8"
    by (simp add: py_int_def py_strip_def py_isspace_def parse_unsigned_def is_digit_def
        digit_val_def int_max_str_digits_def)
  have p2: "py_int (py_strip ''n/a'') = None"
    by (simp add: py_int_def py_strip_def py_isspace_def parse_unsigned_def is_digit_def)
  have p3: "py_int (py_strip '''') = None"
    by (simp add: py_int_def py_strip_def)
  show ?thesis
    using ocr4all_threads_parse [OF s ok, of " '' 8 ''" cfg0 "''http://ocr4all:8080''"]
      ocr4all_threads_parse [OF s ok, of "''n/a''" cfg0 "''http://ocr4all:8080''"]
      ocr4all_threads_parse [OF s ok, of "''''" cfg0 "''http://ocr4all:8080''"]
      p1 p2 p3
    by simp
qed

text \<open>
  C9. Whatever the server answers, a value returned by \<open>ocr4all_threads\<close> is at least 1;
  a text that parses to zero or to a negative integer gives 1, as a normal return value.
\<close>

theorem ocr4all_threads_clamped:
  "(\<forall>n. fst (ocr4all_threads cfg e base_url st) = Inr n \<longrightarrow> 1 \<le> n)
   \<and> (\<forall>r n. server e (http_k st) = Responds r \<and> \<not> http_error_status (status_code r)
          \<and> py_int (py_strip (r_text r)) = Some n \<and> n \<le> 0 \<longrightarrow>
          fst (ocr4all_threads cfg e base_url st) = Inr 1)"
  by (auto simp: threads_run dest: threads_at_least_one)

theorem ocr4all_threads_clamped_witness:
  "fst (ocr4all_threads cfg0 (scripted [resp 200 ''16''] (\<lambda>k. 0)) ''http://ocr4all:8080'' init) = Inr 16
   \<and> (1::int) \<le> 16
   \<and> fst (ocr4all_threads cfg0 (scripted [resp 200 ''-4''] (\<lambda>k. 0)) ''http://ocr4all:8080'' init) = Inr 1
   \<and> fst (ocr4all_threads cfg0 (scripted [resp 200 ''0''] (\<lambda>k. 0)) ''http://ocr4all:8080'' init) = Inr 1"
proof -
  have s: "\<And>t. server (scripted [resp 200 t] (\<lambda>k. 0)) (http_k init)
              = Responds \<lparr>status_code = 200, r_text = t, r_json = None\<rparr>"
    by (simp add: scripted_def resp_def init_def)
  have ok: "\<And>t. \<not> http_error_status (status_code \<lparr>status_code = 200, r_text = t, r_json = None\<rparr>)"
    by (simp add: http_error_status_def)
  have p1: "py_int (py_strip ''-4'') = Some (- 4)"
    by (simp add: py_int_def py_strip_def py_isspace_def parse_unsigned_def is_digit_def
        digit_val_def int_max_str_digits_def)
  have p2: "py_int (py_strip ''0'') = Some 0"
    by (simp add: py_int_def py_strip_def py_isspace_def parse_unsigned_def is_digit_def
        digit_val_def int_max_str_digits_def)
  have c: "\<And>t n. py_int (py_strip t) = Some n \<Longrightarrow> n \<le> 0 \<Longrightarrow>
      fst (ocr4all_threads cfg0 (scripted [resp 200 t] (\<lambda>k. 0)) ''http://ocr4all:8080'' init) = Inr 1"
    using ocr4all_threads_clamped [of cfg0 "scripted [resp 200 t] (\<lambda>k. 0)" "''http://ocr4all:8080''" init for t]
      s ok by (metis response.select_convs(2))
  have p3: "py_int (py_strip ''16'') = Some 16"
    by (simp add: py_int_def py_strip_def py_isspace_def parse_unsigned_def is_digit_def
        digit_val_def int_max_str_digits_def)
  have r: "fst (ocr4all_threads cfg0 (scripted [resp 200 ''16''] (\<lambda>k. 0)) ''http://ocr4all:8080'' init)
      = Inr 16"
    using p3 by (simp add: threads_run [OF s ok])
  have g: "(1::int) \<le> 16"
    by (rule ocr4all_threads_clamped [THEN conjunct1, THEN spec, THEN mp, OF r])
  show ?thesis
    using r g c [OF p1] c [OF p2] by simp
qed

section \<open>Single-request operations\<close>

lemma execute_run_Responds:
  assumes "server e (http_k st) = Responds r"
  shows "fst (ocr4all_processflow_execute cfg e base_url page_ids processes process_settings st) =
     (if status_code r = 200 then Inr ()
      else Inl (RuntimeError (''processFlow/execute failed: HTTP '' @ py_str_int (int (status_code r))
                  @ '': '' @ take 500 (r_text r))))"
  using assms
  by (simp add: ocr4all_processflow_execute_def then_do_def session_request_def ret_def raise_def)

lemma execute_run_Fails:
  assumes "server e (http_k st) = Fails x"
  shows "fst (ocr4all_processflow_execute cfg e base_url page_ids processes process_settings st) =
     Inl (RequestError x)"
  using assms
  by (simp add: ocr4all_processflow_execute_def then_do_def session_request_def)

text \<open>
  C8. \<open>ocr4all_processflow_execute\<close> returns normally exactly when its POST is answered
  with status 200; a response with any other status, 2xx or not, raises \<open>RuntimeError\<close>
  with the message \<open>processFlow/execute failed: HTTP <status>: <first 500 characters of
  the body>\<close>.
\<close>

theorem ocr4all_processflow_execute_status:
  "(fst (ocr4all_processflow_execute cfg e base_url page_ids processes process_settings st) = Inr ()
      \<longleftrightarrow> (\<exists>r. server e (http_k st) = Responds r \<and> status_code r = 200))
   \<and> (\<forall>r. server e (http_k st) = Responds r \<and> status_code r \<noteq> 200 \<longrightarrow>
         fst (ocr4all_processflow_execute cfg e base_url page_ids processes process_settings st) =
           Inl (RuntimeError (''processFlow/execute failed: HTTP '' @ py_str_int (int (status_code r))
                  @ '': '' @ take 500 (r_text r))))"
proof (cases "server e (http_k st)")
  case (Fails x)
  then show ?thesis by (simp add: execute_run_Fails)
next
  case (Responds r)
  then show ?thesis by (simp add: execute_run_Responds)
qed

theorem ocr4all_processflow_execute_status_witness:
  "fst (ocr4all_processflow_execute cfg0 (scripted [resp 200 ''''] (\<lambda>k. 0)) ''http://ocr4all:8080''
          [''0001''] [''preprocessing''] [] init) = Inr ()
   \<and> fst (ocr4all_processflow_execute cfg0 (scripted [resp 204 ''''] (\<lambda>k. 0)) ''http://ocr4all:8080''
          [''0001''] [''preprocessing''] [] init)
       = Inl (RuntimeError ''processFlow/execute failed: HTTP 204: '')
   \<and> fst (ocr4all_processflow_execute cfg0 (scripted [resp 500 ''busy''] (\<lambda>k. 0)) ''http://ocr4all:8080''
          [''0001''] [''preprocessing''] [] init)
       = Inl (RuntimeError ''processFlow/execute failed: HTTP 500: busy'')"
proof -
  have s: "\<And>c t. server (scripted [resp c t] (\<lambda>k. 0)) (http_k init)
              = Responds \<lparr>status_code = c, r_text = t, r_json = None\<rparr>"
    by (simp add: scripted_def resp_def init_def)
  have n1: "py_str_int (int 204) = ''204''"
    by (simp add: py_str_int_def str_nat.simps digit_char_def)
  have n2: "py_str_int (int 500) = ''500''"
    by (simp add: py_str_int_def str_nat.simps digit_char_def)
  show ?thesis
    using ocr4all_processflow_execute_status
        [of cfg0 "scripted [resp 200 ''''] (\<lambda>k. 0)" "''http://ocr4all:8080''" "[''0001'']"
          "[''preprocessing'']" "[]" init]
      ocr4all_processflow_execute_status
        [of cfg0 "scripted [resp 204 ''''] (\<lambda>k. 0)" "''http://ocr4all:8080''" "[''0001'']"
          "[''preprocessing'']" "[]" init]
      ocr4all_processflow_execute_status
        [of cfg0 "scripted [resp 500 ''busy''] (\<lambda>k. 0)" "''http://ocr4all:8080''" "[''0001'']"
          "[''preprocessing'']" "[]" init]
      n1 n2
    by (simp add: s)
qed

lemma convert_run_Responds:
  assumes "server e (http_k st) = Responds r"
  shows "fst (ocr4all_convert_project_files cfg e base_url delete_blank dpi timeout_s st) =
     (if http_error_status (status_code r) then Inl (HTTPError r) else Inr (r_text r))"
  using assms
  by (simp add: ocr4all_convert_project_files_def then_do_def session_request_def
      raise_for_status_def ret_def raise_def)

lemma convert_run_Fails:
  assumes "server e (http_k st) = Fails x"
  shows "fst (ocr4all_convert_project_files cfg e base_url delete_blank dpi timeout_s st) =
     (if x = ReadTimeout then Inr '''' else Inl (RequestError x))"
  using assms
  by (cases x)
    (simp_all add: ocr4all_convert_project_files_def then_do_def session_request_def
      logger_def ret_def)

text \<open>
  C6. \<open>ocr4all_convert_project_files\<close> returns the response text as it is when the POST
  is answered without an HTTP error status, and returns the empty string when the POST
  raises \<open>ReadTimeout\<close>. Every other exception of the POST, and the \<open>HTTPError\<close> of an
  error status, reaches the caller.
\<close>

theorem ocr4all_convert_project_files_result:
  "(\<forall>r. server e (http_k st) = Responds r \<and> \<not> http_error_status (status_code r) \<longrightarrow>
        fst (ocr4all_convert_project_files cfg e base_url delete_blank dpi timeout_s st) = Inr (r_text r))
   \<and> (server e (http_k st) = Fails ReadTimeout \<longrightarrow>
        fst (ocr4all_convert_project_files cfg e base_url delete_blank dpi timeout_s st) = Inr '''')
   \<and> (\<forall>x. server e (http_k st) = Fails x \<and> x \<noteq> ReadTimeout \<longrightarrow>
        fst (ocr4all_convert_project_files cfg e base_url delete_blank dpi timeout_s st) = Inl (RequestError x))
   \<and> (\<forall>r. server e (http_k st) = Responds r \<and> http_error_status (status_code r) \<longrightarrow>
        fst (ocr4all_convert_project_files cfg e base_url delete_blank dpi timeout_s st) = Inl (HTTPError r))"
  by (simp add: convert_run_Responds convert_run_Fails)

theorem ocr4all_convert_project_files_result_witness:
  "fst (ocr4all_convert_project_files cfg0 (scripted [resp 200 '' converted  ''] (\<lambda>k. 0))
          ''http://ocr4all:8080'' True 300 600 init) = Inr '' converted  ''
   \<and> fst (ocr4all_convert_project_files cfg0 (scripted [Fails ReadTimeout] (\<lambda>k. 0))
          ''http://ocr4all:8080'' True 300 600 init) = Inr ''''
   \<and> fst (ocr4all_convert_project_files cfg0 (scripted [Fails ConnectTimeout] (\<lambda>k. 0))
          ''http://ocr4all:8080'' True 300 600 init) = Inl (RequestError ConnectTimeout)
   \<and> fst (ocr4all_convert_project_files cfg0 (scripted [resp 504 ''late''] (\<lambda>k. 0))
          ''http://ocr4all:8080'' True 300 600 init)
       = Inl (HTTPError \<lparr>status_code = 504, r_text = ''late'', r_json = None\<rparr>)"
proof -
  have s: "\<And>oc. server (scripted [oc] (\<lambda>k. 0)) (http_k init) = oc"
    by (simp add: scripted_def init_def)
  show ?thesis
    using ocr4all_convert_project_files_result
        [of "scripted [resp 200 '' converted  ''] (\<lambda>k. 0)" init cfg0 "''http://ocr4all:8080''" True 300 600]
      ocr4all_convert_project_files_result
        [of "scripted [Fails ReadTimeout] (\<lambda>k. 0)" init cfg0 "''http://ocr4all:8080''" True 300 600]
      ocr4all_convert_project_files_result
        [of "scripted [Fails ConnectTimeout] (\<lambda>k. 0)" init cfg0 "''http://ocr4all:8080''" True 300 600]
      ocr4all_convert_project_files_result
        [of "scripted [resp 504 ''late''] (\<lambda>k. 0)" init cfg0 "''http://ocr4all:8080''" True 300 600]
    by (simp add: s resp_def http_error_status_def)
qed

lemma page_ids_run:
  assumes "server e (http_k st) = Responds r" and "\<not> http_error_status (status_code r)"
  shows "fst (ocr4all_get_page_ids cfg e base_url image_type st) =
     (case r_json r of
        None \<Rightarrow> Inl (RuntimeError (''pagelist did not return JSON. head='' @ py_repr (take 200 (r_text r))))
      | Some (JArray xs) \<Rightarrow> Inr (map py_str xs)
      | Some v \<Rightarrow> Inl (RuntimeError (''Unexpected pagelist payload: '' @ py_type v @ '' ''
                         @ take 200 (py_str v))))"
  using assms
  by (simp add: ocr4all_get_page_ids_def then_do_def session_request_def raise_for_status_def
      ret_def raise_def split: option.splits json.splits)

text \<open>
  C5. When the pagelist request is answered without an HTTP error status: a JSON array
  gives the list of \<open>str(x)\<close> of its elements, in the array's order; a JSON value that is
  not an array raises \<open>RuntimeError\<close> with the value's type and the first 200 characters
  of its \<open>str\<close>; a body that is not JSON raises \<open>RuntimeError\<close> with the \<open>repr\<close> of the
  first 200 characters of the text.
\<close>

theorem ocr4all_get_page_ids_result:
  assumes "server e (http_k st) = Responds r" and "\<not> http_error_status (status_code r)"
  shows "(\<forall>xs. r_json r = Some (JArray xs) \<longrightarrow>
            fst (ocr4all_get_page_ids cfg e base_url image_type st) = Inr (map py_str xs))
       \<and> (\<forall>v. r_json r = Some v \<and> (\<forall>xs. v \<noteq> JArray xs) \<longrightarrow>
            fst (ocr4all_get_page_ids cfg e base_url image_type st) =
              Inl (RuntimeError (''Unexpected pagelist payload: '' @ py_type v @ '' ''
                     @ take 200 (py_str v))))
       \<and> (r_json r = None \<longrightarrow>
            fst (ocr4all_get_page_ids cfg e base_url image_type st) =
              Inl (RuntimeError (''pagelist did not return JSON. head=''
                     @ py_repr (take 200 (r_text r)))))"
  by (auto simp: page_ids_run [OF assms] split: json.splits)

theorem ocr4all_get_page_ids_result_witness:
  "fst (ocr4all_get_page_ids cfg0
          (scripted [Responds \<lparr>status_code = 200, r_text = ''[\"0001\", \"0002\", 3]'',
                               r_json = Some (JArray [JString ''0001'', JString ''0002'', JInt 3])\<rparr>]
             (\<lambda>k. 0)) ''http://ocr4all:8080'' ''Binary'' init)
     = Inr [''0001'', ''0002'', ''3'']
   \<and> fst (ocr4all_get_page_ids cfg0
          (scripted [Responds \<lparr>status_code = 200, r_text = ''{\"n\": 1}'',
                               r_json = Some (JObject [(''n'', JInt 1)])\<rparr>]
             (\<lambda>k. 0)) ''http://ocr4all:8080'' ''Binary'' init)
     = Inl (RuntimeError (''Unexpected pagelist payload: <class '' @ [CHR 0x27] @ ''dict'' @ [CHR 0x27]
              @ ''> {'' @ [CHR 0x27] @ ''n'' @ [CHR 0x27] @ '': 1}''))
   \<and> fst (ocr4all_get_page_ids cfg0
          (scripted [Responds \<lparr>status_code = 200, r_text = ''<html>'', r_json = None\<rparr>]
             (\<lambda>k. 0)) ''http://ocr4all:8080'' ''Binary'' init)
     = Inl (RuntimeError (''pagelist did not return JSON. head='' @ [CHR 0x27] @ ''<html>'' @ [CHR 0x27]))"
proof -
  have s: "\<And>r. server (scripted [Responds r] (\<lambda>k. 0)) (http_k init) = Responds r"
    by (simp add: scripted_def init_def)
  have ok: "\<And>t j. \<not> http_error_status (status_code \<lparr>status_code = 200, r_text = t, r_json = j\<rparr>)"
    by (simp add: http_error_status_def)
  have n: "py_str_int 3 = ''3''" "py_str_int 1 = ''1''"
    by (simp_all add: py_str_int_def str_nat.simps digit_char_def)
  have q: "py_repr ''n'' = [CHR 0x27] @ ''n'' @ [CHR 0x27]"
    "py_repr (take 200 ''<html>'') = [CHR 0x27] @ ''<html>'' @ [CHR 0x27]"
    by (simp_all add: py_repr_def repr_char_def py_isprintable_def Let_def)
  show ?thesis
    using ocr4all_get_page_ids_result [OF s ok, of "''[\"0001\", \"0002\", 3]''"
        "Some (JArray [JString ''0001'', JString ''0002'', JInt 3])" cfg0 "''http://ocr4all:8080''" "''Binary''"]
      ocr4all_get_page_ids_result [OF s ok, of "''{\"n\": 1}''"
        "Some (JObject [(''n'', JInt 1)])" cfg0 "''http://ocr4all:8080''" "''Binary''"]
      ocr4all_get_page_ids_result [OF s ok, of "''<html>''" None cfg0 "''http://ocr4all:8080''" "''Binary''"]
      n q
    by (simp add: py_str_def py_type_def)
qed

section \<open>Opening a project\<close>

lemmas open_project_eval =
  ocr4all_open_project_def then_do_def session_request_def raise_for_status_def
  ret_def raise_def init_def answer_def answers_append get_request_def
  numeral_2_eq_2 numeral_3_eq_3

lemma calls_answers: "calls evs = map (\<lambda>a. (fst a, fst (snd a))) (answers evs)"
  by (induction evs rule: calls.induct) simp_all

text \<open>
  The requests of a run of \<open>ocr4all_open_project\<close> and its success, read off the answers
  of the server.
\<close>

lemma open_project_run:
  "answers (trace (snd (ocr4all_open_project cfg e base_url project_dir image_type reset_session init))) =
     (GET, base_url @ ''/'', answer (server e 0)) #
     (if answer (server e 0) = None then []
      else (GET, base_url @ ''/ajax/overview/checkDir'', answer (server e 1)) #
        (if answer (server e 1) \<noteq> Some ''true'' then []
         else (GET, base_url @ ''/ajax/overview/validate'', answer (server e 2)) #
           (if answer (server e 2) = None then []
            else if answer (server e 2) \<noteq> Some ''true''
            then [(GET, base_url @ ''/ajax/overview/invalidateSession'', answer (server e 3))]
            else [(GET, base_url @ ''/ajax/overview/validateProject'', answer (server e 3))])))
   \<and> (fst (ocr4all_open_project cfg e base_url project_dir image_type reset_session init) = Inr ()
        \<longleftrightarrow> answer (server e 0) \<noteq> None \<and> answer (server e 1) = Some ''true''
            \<and> answer (server e 2) = Some ''true'' \<and> answer (server e 3) = Some ''true'')"
proof (cases "server e 0")
  case (Fails x)
  then show ?thesis by (simp add: open_project_eval)
next
  case r0: (Responds r0)
  show ?thesis
  proof (cases "http_error_status (status_code r0)")
    case True
    with r0 show ?thesis by (simp add: open_project_eval)
  next
    case ok0: False
    show ?thesis
    proof (cases "server e 1")
      case (Fails x)
      with r0 ok0 show ?thesis by (simp add: open_project_eval)
    next
      case r1: (Responds r1)
      show ?thesis
      proof (cases "http_error_status (status_code r1) \<or> py_strip (r_text r1) \<noteq> ''true''")
        case True
        with r0 ok0 r1 show ?thesis by (auto simp add: open_project_eval)
      next
        case ok1: False
        show ?thesis
        proof (cases "server e 2")
          case (Fails x)
          with r0 ok0 r1 ok1 show ?thesis by (simp add: open_project_eval)
        next
          case r2: (Responds r2)
          show ?thesis
          proof (cases "http_error_status (status_code r2)")
            case True
            with r0 ok0 r1 ok1 r2 show ?thesis by (simp add: open_project_eval)
          next
            case ok2: False
            show ?thesis
            proof (cases "py_strip (r_text r2) = ''true''")
              case False
              with r0 ok0 r1 ok1 r2 ok2 show ?thesis
                by (cases "server e 3") (simp_all add: open_project_eval)
            next
              case t2: True
              show ?thesis
              proof (cases "server e 3")
                case (Fails x)
                with r0 ok0 r1 ok1 r2 ok2 t2 show ?thesis by (simp add: open_project_eval)
              next
                case r3: (Responds r3)
                with r0 ok0 r1 ok1 r2 ok2 t2 show ?thesis by (simp add: open_project_eval)
              qed
            qed
          qed
        qed
      qed
    qed
  qed
qed

lemmas open_project_answers = open_project_run [THEN conjunct1]
lemmas open_project_success = open_project_run [THEN conjunct2]



lemmas concrete_eval =
  scripted_def resp_def http_error_status_def py_strip_def py_isspace_def cfg0_def


text \<open>
  C10, as the code has it. Every run of \<open>ocr4all_open_project\<close> starts with a GET of the
  base URL's root. When that request raises, or is answered with a 4xx or 5xx status, the
  run raises with no further request; a response with any other status lets the run go
  on. A run that returns normally has made four GET requests: the root, checkDir,
  validate and validateProject.
\<close>

theorem ocr4all_open_project_preliminary:
  fixes cfg e base_url project_dir image_type reset_session
  defines "run \<equiv> ocr4all_open_project cfg e base_url project_dir image_type reset_session init"
  shows
  "(\<exists>rest. calls (trace (snd run)) = (GET, base_url @ ''/'') # rest)
   \<and> (\<forall>x. server e 0 = Fails x \<longrightarrow>
         fst run = Inl (RequestError x) \<and> calls (trace (snd run)) = [(GET, base_url @ ''/'')])
   \<and> (\<forall>r. server e 0 = Responds r \<and> http_error_status (status_code r) \<longrightarrow>
         fst run = Inl (HTTPError r) \<and> calls (trace (snd run)) = [(GET, base_url @ ''/'')])
   \<and> (\<forall>r. server e 0 = Responds r \<and> \<not> http_error_status (status_code r) \<longrightarrow>
         (\<exists>rest. calls (trace (snd run))
                   = (GET, base_url @ ''/'') # (GET, base_url @ ''/ajax/overview/checkDir'') # rest))
   \<and> (fst run = Inr () \<longrightarrow>
         calls (trace (snd run))
           = [(GET, base_url @ ''/''), (GET, base_url @ ''/ajax/overview/checkDir''),
              (GET, base_url @ ''/ajax/overview/validate''),
              (GET, base_url @ ''/ajax/overview/validateProject'')])"
proof -
  have first: "\<exists>rest. calls (trace (snd run)) = (GET, base_url @ ''/'') # rest"
    unfolding run_def by (simp add: calls_answers open_project_answers)
  have fails: "\<And>x. server e 0 = Fails x \<Longrightarrow>
      fst run = Inl (RequestError x) \<and> calls (trace (snd run)) = [(GET, base_url @ ''/'')]"
    unfolding run_def by (simp add: open_project_eval calls_append)
  have status: "\<And>r. server e 0 = Responds r \<Longrightarrow> http_error_status (status_code r) \<Longrightarrow>
      fst run = Inl (HTTPError r) \<and> calls (trace (snd run)) = [(GET, base_url @ ''/'')]"
    unfolding run_def by (simp add: open_project_eval calls_append)
  have goes_on: "\<And>r. server e 0 = Responds r \<Longrightarrow> \<not> http_error_status (status_code r) \<Longrightarrow>
      \<exists>rest. calls (trace (snd run))
                = (GET, base_url @ ''/'') # (GET, base_url @ ''/ajax/overview/checkDir'') # rest"
    unfolding run_def by (simp add: calls_answers open_project_answers answer_def)
  have four: "fst run = Inr () \<Longrightarrow>
      calls (trace (snd run))
        = [(GET, base_url @ ''/''), (GET, base_url @ ''/ajax/overview/checkDir''),
           (GET, base_url @ ''/ajax/overview/validate''),
           (GET, base_url @ ''/ajax/overview/validateProject'')]"
    unfolding run_def by (auto simp add: calls_answers open_project_answers open_project_success)
  show ?thesis
    using first fails status goes_on four by blast
qed

theorem ocr4all_open_project_preliminary_witness:
  "fst (ocr4all_open_project cfg0 (scripted [resp 503 ''starting''] (\<lambda>k. 0))
          ''http://ocr4all:8080'' ''book'' ''Original'' True init)
     = Inl (HTTPError \<lparr>status_code = 503, r_text = ''starting'', r_json = None\<rparr>)
   \<and> calls (trace (snd (ocr4all_open_project cfg0 (scripted [resp 503 ''starting''] (\<lambda>k. 0))
          ''http://ocr4all:8080'' ''book'' ''Original'' True init)))
     = [(GET, ''http://ocr4all:8080/'')]
   \<and> fst (ocr4all_open_project cfg0 (scripted [Fails ConnectionError] (\<lambda>k. 0))
          ''http://ocr4all:8080'' ''book'' ''Original'' True init)
     = Inl (RequestError ConnectionError)
   \<and> (\<exists>rest. calls (trace (snd (ocr4all_open_project cfg0
          (scripted [resp 302 ''moved'', resp 200 ''false''] (\<lambda>k. 0))
          ''http://ocr4all:8080'' ''book'' ''Original'' True init)))
        = (GET, ''http://ocr4all:8080/'') # (GET, ''http://ocr4all:8080/ajax/overview/checkDir'') # rest)
   \<and> calls (trace (snd (ocr4all_open_project cfg0
          (scripted [resp 200 ''<html/>'', resp 200 ''true'', resp 200 ''true'', resp 200 ''true''] (\<lambda>k. 0))
          ''http://ocr4all:8080'' ''book'' ''Original'' True init)))
     = [(GET, ''http://ocr4all:8080/''), (GET, ''http://ocr4all:8080/ajax/overview/checkDir''),
        (GET, ''http://ocr4all:8080/ajax/overview/validate''),
        (GET, ''http://ocr4all:8080/ajax/overview/validateProject'')]"
proof -
  let ?run = "\<lambda>ocs. ocr4all_open_project cfg0 (scripted ocs (\<lambda>k. 0))
                 ''http://ocr4all:8080'' ''book'' ''Original'' True init"
  let ?ok = "[resp 200 ''<html/>'', resp 200 ''true'', resp 200 ''true'', resp 200 ''true'']"
  have h1: "server (scripted [resp 503 ''starting''] (\<lambda>k. 0)) 0
              = Responds \<lparr>status_code = 503, r_text = ''starting'', r_json = None\<rparr>
            \<and> http_error_status (status_code \<lparr>status_code = 503, r_text = ''starting'', r_json = None\<rparr>)"
    by (simp add: concrete_eval)
  have h2: "fst (?run ?ok) = Inr ()"
    by (simp add: open_project_success answer_def concrete_eval numeral_2_eq_2 numeral_3_eq_3)
  have h3: "server (scripted [Fails ConnectionError] (\<lambda>k. 0)) 0 = Fails ConnectionError"
    by (simp add: concrete_eval)
  have h4: "server (scripted [resp 302 ''moved'', resp 200 ''false''] (\<lambda>k. 0)) 0
              = Responds \<lparr>status_code = 302, r_text = ''moved'', r_json = None\<rparr>
            \<and> \<not> http_error_status (status_code \<lparr>status_code = 302, r_text = ''moved'', r_json = None\<rparr>)"
    by (simp add: concrete_eval)
  note w1 = ocr4all_open_project_preliminary [of cfg0 "scripted [resp 503 ''starting''] (\<lambda>k. 0)"
      "''http://ocr4all:8080''" "''book''" "''Original''" True]
  note w2 = ocr4all_open_project_preliminary [of cfg0 "scripted ?ok (\<lambda>k. 0)"
      "''http://ocr4all:8080''" "''book''" "''Original''" True]
  note w3 = ocr4all_open_project_preliminary [of cfg0 "scripted [Fails ConnectionError] (\<lambda>k. 0)"
      "''http://ocr4all:8080''" "''book''" "''Original''" True]
  note w4 = ocr4all_open_project_preliminary [of cfg0
      "scripted [resp 302 ''moved'', resp 200 ''false''] (\<lambda>k. 0)"
      "''http://ocr4all:8080''" "''book''" "''Original''" True]
  have c1: "fst (?run [resp 503 ''starting''])
              = Inl (HTTPError \<lparr>status_code = 503, r_text = ''starting'', r_json = None\<rparr>)
            \<and> calls (trace (snd (?run [resp 503 ''starting'']))) = [(GET, ''http://ocr4all:8080'' @ ''/'')]"
    by (rule w1 [THEN conjunct2, THEN conjunct2, THEN conjunct1, THEN spec, THEN mp, OF h1])
  have c2: "calls (trace (snd (?run ?ok)))
      = [(GET, ''http://ocr4all:8080'' @ ''/''), (GET, ''http://ocr4all:8080'' @ ''/ajax/overview/checkDir''),
         (GET, ''http://ocr4all:8080'' @ ''/ajax/overview/validate''),
         (GET, ''http://ocr4all:8080'' @ ''/ajax/overview/validateProject'')]"
    by (rule w2 [THEN conjunct2, THEN conjunct2, THEN conjunct2, THEN conjunct2, THEN mp, OF h2])
  have c3: "fst (?run [Fails ConnectionError]) = Inl (RequestError ConnectionError)
            \<and> calls (trace (snd (?run [Fails ConnectionError]))) = [(GET, ''http://ocr4all:8080'' @ ''/'')]"
    by (rule w3 [THEN conjunct2, THEN conjunct1, THEN spec, THEN mp, OF h3])
  have c4: "\<exists>rest. calls (trace (snd (?run [resp 302 ''moved'', resp 200 ''false''])))
      = (GET, ''http://ocr4all:8080'' @ ''/'') # (GET, ''http://ocr4all:8080'' @ ''/ajax/overview/checkDir'') # rest"
    by (rule w4 [THEN conjunct2, THEN conjunct2, THEN conjunct2, THEN conjunct1, THEN spec, THEN mp, OF h4])
  show ?thesis
    using c1 c2 c3 c4 by simp
qed

text \<open>
  The preliminary request answered 304, a status outside 2xx: \<open>raise_for_status\<close> lets
  it pass, and with the three steps returning \<open>true\<close> the run returns normally.
\<close>

theorem ocr4all_open_project_preliminary_counterexample:
  "\<not> (200 \<le> (304::nat) \<and> (304::nat) < 300)
   \<and> fst (ocr4all_open_project cfg0
          (scripted [resp 304 '''', resp 200 ''true'', resp 200 ''true'', resp 200 ''true''] (\<lambda>k. 0))
          ''http://ocr4all:8080'' ''book'' ''Original'' True init) = Inr ()"
  by (simp add: open_project_eval concrete_eval Let_def)

section \<open>Moving a state on\<close>

lemma advance_advance [simp]:
  "advance evs' h' c' (advance evs h c st) = advance (evs @ evs') (h + h') (c + c') st"
  by (simp add: advance_def)

lemma advance_nothing [simp]: "advance [] 0 0 st = st"
  by (simp add: advance_def)

lemma trace_advance [simp]: "trace (advance evs h c st) = trace st @ evs"
  by (simp add: advance_def)

lemma http_k_advance [simp]: "http_k (advance evs h c st) = http_k st + h"
  by (simp add: advance_def)

lemma clock_k_advance [simp]: "clock_k (advance evs h c st) = clock_k st + c"
  by (simp add: advance_def)

lemma session_request_advance:
  "session_request e rq st =
     (case server e (http_k st) of Fails x \<Rightarrow> Inl (RequestError x) | Responds r \<Rightarrow> Inr r,
      advance [Http rq (server e (http_k st))] 1 0 st)"
  by (simp add: session_request_def advance_def split: outcome.splits)

lemma time_sleep_advance: "0 \<le> d \<Longrightarrow> time_sleep d st = (Inr (), advance [Sleep d] 0 0 st)"
  by (simp add: time_sleep_def advance_def)

lemma logger_advance: "logger lv m st = (Inr (), advance [Log lv m] 0 0 st)"
  by (simp add: logger_def advance_def)

lemma time_time_advance: "time_time e st = (Inr (clock e (clock_k st)), advance [] 0 1 st)"
  by (simp add: time_time_def advance_def)

section \<open>Polling the current status\<close>

lemma current_run:
  "ocr4all_processflow_current cfg e base_url st =
     (case answer (server e (http_k st)) of
        Some s \<Rightarrow> Inr s
      | None \<Rightarrow> Inl (case server e (http_k st) of Fails x \<Rightarrow> RequestError x | Responds r \<Rightarrow> HTTPError r),
      advance [Http (get_request (base_url @ ''/ajax/processFlow/current'') []
                       (OCR4ALL_HTTP_TIMEOUT_S cfg)) (server e (http_k st))] 1 0 st)"
  by (cases "server e (http_k st)")
    (simp_all add: ocr4all_processflow_current_def then_do_def session_request_advance
      raise_for_status_def ret_def raise_def answer_def)

lemma busy_answer: "busy oc \<longleftrightarrow> (\<exists>s. answer oc = Some s \<and> s \<noteq> '''')"
  by (simp add: busy_def split: option.splits)

lemma get_request_meth [simp]: "meth (get_request u ps t) = GET"
  by (simp add: get_request_def)

lemma get_request_url [simp]: "url (get_request u ps t) = u"
  by (simp add: get_request_def)

section \<open>Executing the process flow with retries\<close>








lemma busy_not_idle: "busy oc \<Longrightarrow> \<not> idle oc"
  by (auto simp: busy_answer idle_def)

















lemma length_attempts: "length [1..retries] = nat retries"
  by simp








section \<open>Waiting for the process flow\<close>

text \<open>One round of the loop, by what the poll is answered and what the clock reads.\<close>

lemma wait_loop_poll_raises:
  assumes "answer (server e (http_k st)) = None"
  shows "\<exists>x. wait_loop cfg e base_url timeout_s t0 lc st =
     Some (Inl x,
       advance [Http (get_request (base_url @ ''/ajax/processFlow/current'') []
                        (OCR4ALL_HTTP_TIMEOUT_S cfg)) (server e (http_k st))] 1 0 st)"
  using assms by (subst wait_loop.simps) (simp add: current_run)

lemma wait_loop_idle:
  assumes "idle (server e (http_k st))"
  shows "wait_loop cfg e base_url timeout_s t0 lc st =
     Some (Inr (),
       advance ([Http (get_request (base_url @ ''/ajax/processFlow/current'') []
                         (OCR4ALL_HTTP_TIMEOUT_S cfg)) (server e (http_k st))]
                @ (if Some '''' \<noteq> lc then [Log INFO (''OCR4all current: '' @ py_repr '''')] else []))
         1 0 st)"
  using assms by (subst wait_loop.simps) (simp add: current_run idle_def logger_advance)

lemma wait_loop_timeout:
  assumes "answer (server e (http_k st)) = Some s" and "s \<noteq> ''''"
    and "clock e (clock_k st) - t0 > real_of_int timeout_s"
  shows "wait_loop cfg e base_url timeout_s t0 lc st =
     Some (Inl (TimeoutError ''Timed out waiting for OCR4all process flow to finish''),
       advance ([Http (get_request (base_url @ ''/ajax/processFlow/current'') []
                         (OCR4ALL_HTTP_TIMEOUT_S cfg)) (server e (http_k st))]
                @ (if Some s \<noteq> lc then [Log INFO (''OCR4all current: '' @ py_repr s)] else []))
         1 1 st)"
  using assms
  by (subst wait_loop.simps) (simp add: current_run logger_advance time_time_advance)

lemma wait_loop_again:
  assumes "answer (server e (http_k st)) = Some s" and "s \<noteq> ''''"
    and "clock e (clock_k st) - t0 \<le> real_of_int timeout_s"
  shows "wait_loop cfg e base_url timeout_s t0 lc st =
     wait_loop cfg e base_url timeout_s t0 (Some s)
       (advance ([Http (get_request (base_url @ ''/ajax/processFlow/current'') []
                          (OCR4ALL_HTTP_TIMEOUT_S cfg)) (server e (http_k st))]
                 @ (if Some s \<noteq> lc then [Log INFO (''OCR4all current: '' @ py_repr s)] else [])
                 @ [Sleep 1])
          1 1 st)"
  using assms
  by (subst wait_loop.simps)
    (auto simp add: current_run logger_advance time_time_advance time_sleep_advance)

lemma remdups_adj_head: "remdups_adj (x # xs) = x # tl (remdups_adj (x # xs))"
  by (cases xs) simp_all

text \<open>
  A run of the loop whose first \<open>n\<close> polls report busy within the time limit and whose
  next poll either reports idle, or reports busy past the limit.
\<close>

lemma wait_loop_run:
  assumes "\<forall>k<n. busy (server e (http_k st + k))
                 \<and> clock e (clock_k st + k) - t0 \<le> real_of_int timeout_s"
    and "idle (server e (http_k st + n))
         \<or> busy (server e (http_k st + n)) \<and> clock e (clock_k st + n) - t0 > real_of_int timeout_s"
  shows "\<exists>evs c ss.
     wait_loop cfg e base_url timeout_s t0 lc st =
       Some (if idle (server e (http_k st + n)) then Inr ()
             else Inl (TimeoutError ''Timed out waiting for OCR4all process flow to finish''),
             advance evs (Suc n) c st)
     \<and> schedule evs = concat (replicate n [Inl (base_url @ ''/ajax/processFlow/current''), Inr 1])
                        @ [Inl (base_url @ ''/ajax/processFlow/current'')]
     \<and> map Some ss = tl (remdups_adj (lc # map (\<lambda>k. answer (server e (http_k st + k))) [0..<Suc n]))
     \<and> logs_of evs = map (\<lambda>s. (INFO, ''OCR4all current: '' @ py_repr s)) ss"
  using assms
proof (induction n arbitrary: st lc)
  case 0
  let ?poll = "Http (get_request (base_url @ ''/ajax/processFlow/current'') []
                       (OCR4ALL_HTTP_TIMEOUT_S cfg)) (server e (http_k st))"
  from "0.prems"(2) consider (idle) "idle (server e (http_k st))"
    | (late) "busy (server e (http_k st))" "clock e (clock_k st) - t0 > real_of_int timeout_s"
    by auto
  then show ?case
  proof cases
    case idle
    let ?evs = "[?poll] @ (if Some '''' \<noteq> lc then [Log INFO (''OCR4all current: '' @ py_repr '''')] else [])"
    have a: "answer (server e (http_k st)) = Some ''''"
      using idle by (simp add: idle_def)
    have "wait_loop cfg e base_url timeout_s t0 lc st = Some (Inr (), advance ?evs (Suc 0) 0 st)"
      by (simp add: wait_loop_idle [OF idle])
    moreover have "schedule ?evs = [Inl (base_url @ ''/ajax/processFlow/current'')]"
      by simp
    moreover have "map Some (if Some '''' \<noteq> lc then [''''] else [])
        = tl (remdups_adj (lc # map (\<lambda>k. answer (server e (http_k st + k))) [0..<Suc 0]))"
      using a by simp
    moreover have "logs_of ?evs = map (\<lambda>s. (INFO, ''OCR4all current: '' @ py_repr s))
        (if Some '''' \<noteq> lc then [''''] else [])"
      by simp
    ultimately show ?thesis
      using idle by (intro exI [of _ ?evs] exI [of _ 0] exI [of _ "if Some '''' \<noteq> lc then [''''] else []"]) simp
  next
    case late
    from late(1) obtain s where a: "answer (server e (http_k st)) = Some s" and s: "s \<noteq> ''''"
      by (auto simp: busy_answer)
    let ?evs = "[?poll] @ (if Some s \<noteq> lc then [Log INFO (''OCR4all current: '' @ py_repr s)] else [])"
    have ni: "\<not> idle (server e (http_k st))"
      using late(1) busy_not_idle by blast
    have "wait_loop cfg e base_url timeout_s t0 lc st =
        Some (Inl (TimeoutError ''Timed out waiting for OCR4all process flow to finish''),
              advance ?evs (Suc 0) 1 st)"
      by (simp add: wait_loop_timeout [OF a s late(2)])
    moreover have "schedule ?evs = [Inl (base_url @ ''/ajax/processFlow/current'')]"
      by simp
    moreover have "map Some (if Some s \<noteq> lc then [s] else [])
        = tl (remdups_adj (lc # map (\<lambda>k. answer (server e (http_k st + k))) [0..<Suc 0]))"
      using a by simp
    moreover have "logs_of ?evs = map (\<lambda>s. (INFO, ''OCR4all current: '' @ py_repr s))
        (if Some s \<noteq> lc then [s] else [])"
      by simp
    ultimately show ?thesis
      using ni by (intro exI [of _ ?evs] exI [of _ 1] exI [of _ "if Some s \<noteq> lc then [s] else []"]) simp
  qed
next
  case (Suc n)
  let ?poll = "Http (get_request (base_url @ ''/ajax/processFlow/current'') []
                       (OCR4ALL_HTTP_TIMEOUT_S cfg)) (server e (http_k st))"
  have b0: "busy (server e (http_k st))" and t0: "clock e (clock_k st) - t0 \<le> real_of_int timeout_s"
    using Suc.prems(1) [rule_format, of 0] by simp_all
  from b0 obtain s where a: "answer (server e (http_k st)) = Some s" and s: "s \<noteq> ''''"
    by (auto simp: busy_answer)
  let ?pre = "[?poll] @ (if Some s \<noteq> lc then [Log INFO (''OCR4all current: '' @ py_repr s)] else [])
              @ [Sleep 1]"
  let ?st1 = "advance ?pre 1 1 st"
  have p1: "\<forall>k<n. busy (server e (http_k ?st1 + k))
                 \<and> clock e (clock_k ?st1 + k) - t0 \<le> real_of_int timeout_s"
  proof (intro allI impI)
    fix k assume "k < n"
    then have "Suc k < Suc n" by simp
    from Suc.prems(1) [rule_format, OF this]
    show "busy (server e (http_k ?st1 + k))
          \<and> clock e (clock_k ?st1 + k) - t0 \<le> real_of_int timeout_s"
      by simp
  qed
  have p2: "idle (server e (http_k ?st1 + n))
         \<or> busy (server e (http_k ?st1 + n)) \<and> clock e (clock_k ?st1 + n) - t0 > real_of_int timeout_s"
    using Suc.prems(2) by simp
  from Suc.IH [OF p1 p2, of "Some s"] obtain evs c ss where
    run: "wait_loop cfg e base_url timeout_s t0 (Some s) ?st1 =
       Some (if idle (server e (http_k ?st1 + n)) then Inr ()
             else Inl (TimeoutError ''Timed out waiting for OCR4all process flow to finish''),
             advance evs (Suc n) c ?st1)"
    and sch: "schedule evs = concat (replicate n [Inl (base_url @ ''/ajax/processFlow/current''), Inr 1])
                        @ [Inl (base_url @ ''/ajax/processFlow/current'')]"
    and ss: "map Some ss = tl (remdups_adj (Some s # map (\<lambda>k. answer (server e (http_k ?st1 + k))) [0..<Suc n]))"
    and lg: "logs_of evs = map (\<lambda>s. (INFO, ''OCR4all current: '' @ py_repr s)) ss"
    by blast
  let ?ss = "(if Some s \<noteq> lc then [s] else []) @ ss"
  have ups: "[0..<Suc (Suc n)] = 0 # map Suc [0..<Suc n]"
    by (simp add: upt_conv_Cons map_Suc_upt del: upt_Suc)
  have shift: "map (\<lambda>k. answer (server e (http_k st + k))) [0..<Suc (Suc n)]
      = Some s # map (\<lambda>k. answer (server e (http_k ?st1 + k))) [0..<Suc n]"
    unfolding ups using a by (simp add: comp_def)
  have "wait_loop cfg e base_url timeout_s t0 lc st =
       Some (if idle (server e (http_k st + Suc n)) then Inr ()
             else Inl (TimeoutError ''Timed out waiting for OCR4all process flow to finish''),
             advance (?pre @ evs) (Suc (Suc n)) (Suc c) st)"
    using run by (simp add: wait_loop_again [OF a s t0])
  moreover have "schedule (?pre @ evs)
      = concat (replicate (Suc n) [Inl (base_url @ ''/ajax/processFlow/current''), Inr 1])
          @ [Inl (base_url @ ''/ajax/processFlow/current'')]"
    using sch by (simp add: schedule_append)
  moreover have "map Some ?ss
      = tl (remdups_adj (lc # map (\<lambda>k. answer (server e (http_k st + k))) [0..<Suc (Suc n)]))"
  proof (cases "Some s = lc")
    case True
    then show ?thesis
      unfolding shift using ss by auto
  next
    case False
    have "remdups_adj (lc # Some s # map (\<lambda>k. answer (server e (http_k ?st1 + k))) [0..<Suc n])
        = lc # Some s # map Some ss"
      using False ss
        remdups_adj_head [of "Some s" "map (\<lambda>k. answer (server e (http_k ?st1 + k))) [0..<Suc n]"]
      by auto
    with False show ?thesis
      unfolding shift by simp
  qed
  moreover have "logs_of (?pre @ evs) = map (\<lambda>s. (INFO, ''OCR4all current: '' @ py_repr s)) ?ss"
    using lg by (simp add: logs_of_append)
  ultimately show ?case by blast
qed

text \<open>
  C4. Take a run of \<open>ocr4all_processflow_wait\<close> whose first \<open>n\<close> polls report busy, the
  time read after each being within \<open>timeout_s\<close> of the start. If the next poll reports
  idle the run returns normally, whatever the clock reads by then; if it reports busy and
  the time read after it is more than \<open>timeout_s\<close> past the start, the run raises
  \<open>TimeoutError\<close>. Either way the polls are separated by sleeps of one second, and
  the statuses logged are the polled ones with repetitions of the previous one left out.
\<close>

theorem ocr4all_processflow_wait_result:
  fixes cfg e base_url timeout_s n
  defines "run \<equiv> ocr4all_processflow_wait cfg e base_url timeout_s init"
    and "u \<equiv> base_url @ ''/ajax/processFlow/current''"
  assumes prefix: "\<forall>k<n. busy (server e k) \<and> clock e (Suc k) - clock e 0 \<le> real_of_int timeout_s"
  shows
  "(idle (server e n) \<longrightarrow>
      (\<exists>st ss. run = Some (Inr (), st)
         \<and> schedule (trace st) = concat (replicate n [Inl u, Inr 1]) @ [Inl u]
         \<and> map Some ss = remdups_adj (map (\<lambda>k. answer (server e k)) [0..<Suc n])
         \<and> logs_of (trace st) = map (\<lambda>s. (INFO, ''OCR4all current: '' @ py_repr s)) ss))
   \<and> (busy (server e n) \<and> clock e (Suc n) - clock e 0 > real_of_int timeout_s \<longrightarrow>
      (\<exists>st ss. run = Some (Inl (TimeoutError ''Timed out waiting for OCR4all process flow to finish''), st)
         \<and> schedule (trace st) = concat (replicate n [Inl u, Inr 1]) @ [Inl u]
         \<and> map Some ss = remdups_adj (map (\<lambda>k. answer (server e k)) [0..<Suc n])
         \<and> logs_of (trace st) = map (\<lambda>s. (INFO, ''OCR4all current: '' @ py_repr s)) ss))"
proof -
  let ?st1 = "advance [] 0 1 init"
  have start: "run = wait_loop cfg e base_url timeout_s (clock e 0) None ?st1"
    by (simp add: run_def ocr4all_processflow_wait_def time_time_advance init_def)
  have p1: "\<forall>k<n. busy (server e (http_k ?st1 + k))
                 \<and> clock e (clock_k ?st1 + k) - clock e 0 \<le> real_of_int timeout_s"
    using prefix by (simp add: init_def)
  have main: "\<exists>st ss. run = Some (if idle (server e n) then Inr ()
                 else Inl (TimeoutError ''Timed out waiting for OCR4all process flow to finish''), st)
         \<and> schedule (trace st) = concat (replicate n [Inl u, Inr 1]) @ [Inl u]
         \<and> map Some ss = remdups_adj (map (\<lambda>k. answer (server e k)) [0..<Suc n])
         \<and> logs_of (trace st) = map (\<lambda>s. (INFO, ''OCR4all current: '' @ py_repr s)) ss"
    if last: "idle (server e n)
         \<or> busy (server e n) \<and> clock e (Suc n) - clock e 0 > real_of_int timeout_s"
  proof -
    have p2: "idle (server e (http_k ?st1 + n))
         \<or> busy (server e (http_k ?st1 + n))
            \<and> clock e (clock_k ?st1 + n) - clock e 0 > real_of_int timeout_s"
      using last by (simp add: init_def)
    from wait_loop_run [OF p1 p2, of cfg base_url None] obtain evs c ss where
      r: "run = Some (if idle (server e n) then Inr ()
             else Inl (TimeoutError ''Timed out waiting for OCR4all process flow to finish''),
             advance evs (Suc n) c ?st1)"
      and sch: "schedule evs = concat (replicate n [Inl u, Inr 1]) @ [Inl u]"
      and ss: "map Some ss = tl (remdups_adj (None # map (\<lambda>k. answer (server e k)) [0..<Suc n]))"
      and lg: "logs_of evs = map (\<lambda>s. (INFO, ''OCR4all current: '' @ py_repr s)) ss"
      unfolding start u_def by (auto simp add: init_def)
    have first: "answer (server e 0) \<noteq> None"
    proof (cases n)
      case 0
      with last show ?thesis by (auto simp: idle_def busy_answer)
    next
      case (Suc m)
      with prefix have "busy (server e 0)" by simp
      then show ?thesis by (auto simp: busy_answer)
    qed
    have ups: "[0..<Suc n] = 0 # [Suc 0..<Suc n]"
      by (simp add: upt_conv_Cons del: upt_Suc)
    have "tl (remdups_adj (None # map (\<lambda>k. answer (server e k)) [0..<Suc n]))
        = remdups_adj (map (\<lambda>k. answer (server e k)) [0..<Suc n])"
      unfolding ups using first by auto
    with ss have ss': "map Some ss = remdups_adj (map (\<lambda>k. answer (server e k)) [0..<Suc n])"
      by simp
    have "trace (advance evs (Suc n) c ?st1) = evs"
      by (simp add: init_def)
    with r sch ss' lg show ?thesis by metis
  qed
  have a: "idle (server e n) \<longrightarrow>
      (\<exists>st ss. run = Some (Inr (), st)
         \<and> schedule (trace st) = concat (replicate n [Inl u, Inr 1]) @ [Inl u]
         \<and> map Some ss = remdups_adj (map (\<lambda>k. answer (server e k)) [0..<Suc n])
         \<and> logs_of (trace st) = map (\<lambda>s. (INFO, ''OCR4all current: '' @ py_repr s)) ss)"
  proof
    assume i: "idle (server e n)"
    from main [OF disjI1, OF i] i show "\<exists>st ss. run = Some (Inr (), st)
         \<and> schedule (trace st) = concat (replicate n [Inl u, Inr 1]) @ [Inl u]
         \<and> map Some ss = remdups_adj (map (\<lambda>k. answer (server e k)) [0..<Suc n])
         \<and> logs_of (trace st) = map (\<lambda>s. (INFO, ''OCR4all current: '' @ py_repr s)) ss"
      by simp
  qed
  have b: "busy (server e n) \<and> clock e (Suc n) - clock e 0 > real_of_int timeout_s \<longrightarrow>
      (\<exists>st ss. run = Some (Inl (TimeoutError ''Timed out waiting for OCR4all process flow to finish''), st)
         \<and> schedule (trace st) = concat (replicate n [Inl u, Inr 1]) @ [Inl u]
         \<and> map Some ss = remdups_adj (map (\<lambda>k. answer (server e k)) [0..<Suc n])
         \<and> logs_of (trace st) = map (\<lambda>s. (INFO, ''OCR4all current: '' @ py_repr s)) ss)"
  proof
    assume l: "busy (server e n) \<and> clock e (Suc n) - clock e 0 > real_of_int timeout_s"
    then have ni: "\<not> idle (server e n)"
      using busy_not_idle by blast
    from main [OF disjI2, OF l] ni
    show "\<exists>st ss. run = Some (Inl (TimeoutError ''Timed out waiting for OCR4all process flow to finish''), st)
         \<and> schedule (trace st) = concat (replicate n [Inl u, Inr 1]) @ [Inl u]
         \<and> map Some ss = remdups_adj (map (\<lambda>k. answer (server e k)) [0..<Suc n])
         \<and> logs_of (trace st) = map (\<lambda>s. (INFO, ''OCR4all current: '' @ py_repr s)) ss"
      by simp
  qed
  show ?thesis
    using a b by (rule conjI)
qed

theorem ocr4all_processflow_wait_result_witness:
  "(\<exists>st. ocr4all_processflow_wait cfg0
            (scripted [resp 200 ''segmentation'', resp 200 ''segmentation'', resp 200 ''  '']
               (\<lambda>k. if k < 3 then 0 else 100))
            ''http://ocr4all:8080'' 5 init = Some (Inr (), st)
      \<and> schedule (trace st)
          = [Inl ''http://ocr4all:8080/ajax/processFlow/current'', Inr 1,
             Inl ''http://ocr4all:8080/ajax/processFlow/current'', Inr 1,
             Inl ''http://ocr4all:8080/ajax/processFlow/current'']
      \<and> logs_of (trace st)
          = [(INFO, ''OCR4all current: '' @ [CHR 0x27] @ ''segmentation'' @ [CHR 0x27]),
             (INFO, ''OCR4all current: '' @ [CHR 0x27, CHR 0x27])])
   \<and> (\<exists>st. ocr4all_processflow_wait cfg0
            (scripted [resp 200 ''ocr'', resp 200 ''ocr''] (\<lambda>k. 10 * real k))
            ''http://ocr4all:8080'' 15 init
          = Some (Inl (TimeoutError ''Timed out waiting for OCR4all process flow to finish''), st)
      \<and> schedule (trace st)
          = [Inl ''http://ocr4all:8080/ajax/processFlow/current'', Inr 1,
             Inl ''http://ocr4all:8080/ajax/processFlow/current'']
      \<and> logs_of (trace st)
          = [(INFO, ''OCR4all current: '' @ [CHR 0x27] @ ''ocr'' @ [CHR 0x27])])"
proof -
  let ?e1 = "scripted [resp 200 ''segmentation'', resp 200 ''segmentation'', resp 200 ''  '']
               (\<lambda>k. if k < 3 then 0 else 100)"
  let ?e2 = "scripted [resp 200 ''ocr'', resp 200 ''ocr''] (\<lambda>k. 10 * real k)"
  have q: "py_repr ''segmentation'' = [CHR 0x27] @ ''segmentation'' @ [CHR 0x27]"
    "py_repr '''' = [CHR 0x27, CHR 0x27]"
    "py_repr ''ocr'' = [CHR 0x27] @ ''ocr'' @ [CHR 0x27]"
    by (simp_all add: py_repr_def repr_char_def py_isprintable_def Let_def)
  have p1: "\<forall>k<2. busy (server ?e1 k) \<and> clock ?e1 (Suc k) - clock ?e1 0 \<le> real_of_int 5"
    by (simp add: busy_def answer_def concrete_eval numeral_2_eq_2 less_Suc_eq)
  have i1: "idle (server ?e1 2)"
    by (simp add: idle_def answer_def concrete_eval)
  have a1: "remdups_adj (map (\<lambda>k. answer (server ?e1 k)) [0..<Suc 2])
      = [Some ''segmentation'', Some '''']"
    by (simp add: answer_def concrete_eval numeral_2_eq_2)
  have p2: "\<forall>k<1. busy (server ?e2 k) \<and> clock ?e2 (Suc k) - clock ?e2 0 \<le> real_of_int 15"
    by (simp add: busy_def answer_def concrete_eval)
  have l2: "busy (server ?e2 1) \<and> clock ?e2 (Suc 1) - clock ?e2 0 > real_of_int 15"
    by (simp add: busy_def answer_def concrete_eval)
  have a2: "remdups_adj (map (\<lambda>k. answer (server ?e2 k)) [0..<Suc 1]) = [Some ''ocr'']"
    by (simp add: answer_def concrete_eval)
  from ocr4all_processflow_wait_result [OF p1, of cfg0 "''http://ocr4all:8080''",
      THEN conjunct1, THEN mp, OF i1]
  obtain st1 ss1 where
    r1: "ocr4all_processflow_wait cfg0 ?e1 ''http://ocr4all:8080'' 5 init = Some (Inr (), st1)"
    and s1: "schedule (trace st1)
        = concat (replicate 2 [Inl (''http://ocr4all:8080'' @ ''/ajax/processFlow/current''), Inr 1])
          @ [Inl (''http://ocr4all:8080'' @ ''/ajax/processFlow/current'')]"
    and m1: "map Some ss1 = remdups_adj (map (\<lambda>k. answer (server ?e1 k)) [0..<Suc 2])"
    and g1: "logs_of (trace st1) = map (\<lambda>s. (INFO, ''OCR4all current: '' @ py_repr s)) ss1"
    by blast
  from m1 a1 have "ss1 = [''segmentation'', '''']"
    by (auto simp: map_eq_Cons_conv)
  with r1 s1 g1 q have c1: "\<exists>st. ocr4all_processflow_wait cfg0 ?e1 ''http://ocr4all:8080'' 5 init
        = Some (Inr (), st)
      \<and> schedule (trace st)
          = [Inl ''http://ocr4all:8080/ajax/processFlow/current'', Inr 1,
             Inl ''http://ocr4all:8080/ajax/processFlow/current'', Inr 1,
             Inl ''http://ocr4all:8080/ajax/processFlow/current'']
      \<and> logs_of (trace st)
          = [(INFO, ''OCR4all current: '' @ [CHR 0x27] @ ''segmentation'' @ [CHR 0x27]),
             (INFO, ''OCR4all current: '' @ [CHR 0x27, CHR 0x27])]"
    by (simp add: numeral_2_eq_2)
  from ocr4all_processflow_wait_result [OF p2, of cfg0 "''http://ocr4all:8080''",
      THEN conjunct2, THEN mp, OF l2]
  obtain st2 ss2 where
    r2: "ocr4all_processflow_wait cfg0 ?e2 ''http://ocr4all:8080'' 15 init
        = Some (Inl (TimeoutError ''Timed out waiting for OCR4all process flow to finish''), st2)"
    and s2: "schedule (trace st2)
        = concat (replicate 1 [Inl (''http://ocr4all:8080'' @ ''/ajax/processFlow/current''), Inr 1])
          @ [Inl (''http://ocr4all:8080'' @ ''/ajax/processFlow/current'')]"
    and m2: "map Some ss2 = remdups_adj (map (\<lambda>k. answer (server ?e2 k)) [0..<Suc 1])"
    and g2: "logs_of (trace st2) = map (\<lambda>s. (INFO, ''OCR4all current: '' @ py_repr s)) ss2"
    by blast
  from m2 a2 have "ss2 = [''ocr'']"
    by (auto simp: map_eq_Cons_conv)
  with r2 s2 g2 q have c2: "\<exists>st. ocr4all_processflow_wait cfg0 ?e2 ''http://ocr4all:8080'' 15 init
        = Some (Inl (TimeoutError ''Timed out waiting for OCR4all process flow to finish''), st)
      \<and> schedule (trace st)
          = [Inl ''http://ocr4all:8080/ajax/processFlow/current'', Inr 1,
             Inl ''http://ocr4all:8080/ajax/processFlow/current'']
      \<and> logs_of (trace st)
          = [(INFO, ''OCR4all current: '' @ [CHR 0x27] @ ''ocr'' @ [CHR 0x27])]"
    by simp
  show ?thesis
    using c1 c2 by (rule conjI)
qed

end
